theory Spec2Isabelle
  imports Complex_Main
begin

text \<open>
  A model of the record store of \<open>cookie-manager.js\<close>: the text codec and the comparator
  of \<open>CsvUtils\<close>, the predicate builder \<open>csvDataFilter\<close>, the executors \<open>csvDataFetcher\<close>
  and \<open>csvModifyHandler\<close>, and the facade \<open>csvDb\<close> over the remote store. The file holds
  the two copies of this code, which are the same. Functions of the source keep their
  names; a loop is a recursive function over what is left of its input, with the loop
  variables as arguments; an exception is the left side of a sum.
\<close>

section \<open>Strings and host primitives\<close>

text \<open>
  A JavaScript string is modelled as a \<open>string\<close>: a list of code units, restricted to the
  units below 256. The four characters the codec inspects are named here.
\<close>

abbreviation dquote :: char where "dquote \<equiv> CHR 0x22"
abbreviation comma :: char where "comma \<equiv> CHR 0x2C"
abbreviation newline :: char where "newline \<equiv> CHR 0x0A"
abbreviation backslash :: char where "backslash \<equiv> CHR 0x5C"

text \<open>
  \<open>String.prototype.split\<close> with a one-character separator: the pieces between the
  separators, so the result of splitting any string has at least one element.
\<close>

fun split_on :: "char \<Rightarrow> string \<Rightarrow> string list" where
  "split_on sep [] = [[]]"
| "split_on sep (c # cs) =
     (if c = sep then [] # split_on sep cs
      else (case split_on sep cs of
              [] \<Rightarrow> [[c]]
            | l # ls \<Rightarrow> (c # l) # ls))"

text \<open>\<open>Array.prototype.join\<close> with a one-character separator.\<close>

fun join :: "char \<Rightarrow> string list \<Rightarrow> string" where
  "join sep [] = []"
| "join sep [x] = x"
| "join sep (x # y # ys) = x @ sep # join sep (y # ys)"

text \<open>
  The code units below 256 that \<open>String.prototype.trim\<close> strips (and that
  \<open>parseFloat\<close> skips): TAB, LF, VT, FF, CR, SPACE and NBSP.
\<close>

definition is_whitespace :: "char \<Rightarrow> bool" where
  "is_whitespace c \<longleftrightarrow>
     c = CHR 0x09 \<or> c = CHR 0x0A \<or> c = CHR 0x0B \<or> c = CHR 0x0C \<or> c = CHR 0x0D
     \<or> c = CHR 0x20 \<or> c = CHR 0xA0"

text \<open>\<open>!line.trim()\<close>: the line is empty once trimmed.\<close>

definition is_blank :: "string \<Rightarrow> bool" where
  "is_blank line = list_all is_whitespace line"

section \<open>CsvUtils: the text codec\<close>

text \<open>
  \<open>s.replace(/\\t/g, 't')\<close> for a one-character \<open>t\<close>: every occurrence, scanning from
  the left, of a backslash followed by \<open>t\<close> is replaced by \<open>t\<close> alone.
\<close>

fun replace_escaped :: "char \<Rightarrow> string \<Rightarrow> string" where
  "replace_escaped t (a # b # cs) =
     (if a = backslash \<and> b = t then t # replace_escaped t cs
      else a # replace_escaped t (b # cs))"
| "replace_escaped t cs = cs"

definition unescapeField :: "string \<Rightarrow> string" where
  "unescapeField field = replace_escaped comma (replace_escaped dquote field)"

text \<open>
  \<open>parseCsvLine\<close>: the \<open>while\<close> loop over the line, with the rest of the line in place
  of the index \<open>i\<close>, and the loop variables \<open>inQuotes\<close>, \<open>current\<close> and \<open>result\<close>.
\<close>

fun parse_loop :: "string \<Rightarrow> bool \<Rightarrow> string \<Rightarrow> string list \<Rightarrow> string list" where
  "parse_loop [] inQuotes current result = result @ [unescapeField current]"
| "parse_loop (c # cs) True current result =
     (if c = dquote \<and> cs \<noteq> [] \<and> hd cs = dquote
        then parse_loop (tl cs) True (current @ [dquote]) result
      else if c = dquote then parse_loop cs False current result
      else parse_loop cs True (current @ [c]) result)"
| "parse_loop (c # cs) False current result =
     (if c = dquote then parse_loop cs True current result
      else if c = comma then parse_loop cs False [] (result @ [unescapeField current])
      else parse_loop cs False (current @ [c]) result)"

definition parseCsvLine :: "string \<Rightarrow> string list" where
  "parseCsvLine line = parse_loop line False [] []"

text \<open>\<open>field.replace(/"/g, '""')\<close>.\<close>

fun double_quotes :: "string \<Rightarrow> string" where
  "double_quotes [] = []"
| "double_quotes (c # cs) =
     (if c = dquote then dquote # dquote # double_quotes cs else c # double_quotes cs)"

text \<open>
  \<open>escapeCsvField\<close> on a string. (Its first branch, \<open>null\<close> to the empty string, is not
  reached from the executors: \<open>prepareRecord\<close> and the parser hand it strings only.)
\<close>

definition escapeCsvField :: "string \<Rightarrow> string" where
  "escapeCsvField field =
     (if comma \<in> set field \<or> dquote \<in> set field \<or> newline \<in> set field
        then dquote # double_quotes field @ [dquote]
      else field)"


section \<open>Numbers\<close>

text \<open>
  A JavaScript number, as far as \<open>compareValue\<close> and its callers look at it: not-a-number,
  the two infinities, or a finite value. Finite values are exact rationals; the rounding of
  a decimal literal to the nearest double is not modelled.
\<close>

datatype jsnum = NaN | NegInf | Num rat | PosInf

fun jsnum_neg :: "jsnum \<Rightarrow> jsnum" where
  "jsnum_neg NaN = NaN"
| "jsnum_neg NegInf = PosInf"
| "jsnum_neg PosInf = NegInf"
| "jsnum_neg (Num x) = Num (- x)"

fun jsnum_sub :: "jsnum \<Rightarrow> jsnum \<Rightarrow> jsnum" where
  "jsnum_sub NaN y = NaN"
| "jsnum_sub x NaN = NaN"
| "jsnum_sub PosInf PosInf = NaN"
| "jsnum_sub NegInf NegInf = NaN"
| "jsnum_sub PosInf y = PosInf"
| "jsnum_sub NegInf y = NegInf"
| "jsnum_sub (Num x) PosInf = NegInf"
| "jsnum_sub (Num x) NegInf = PosInf"
| "jsnum_sub (Num x) (Num y) = Num (x - y)"

text \<open>The four tests \<open>r > 0\<close>, \<open>r >= 0\<close>, \<open>r < 0\<close>, \<open>r <= 0\<close>; each is false on \<open>NaN\<close>.\<close>

fun gt_zero :: "jsnum \<Rightarrow> bool" where
  "gt_zero PosInf = True"
| "gt_zero (Num x) = (x > 0)"
| "gt_zero r = False"

fun ge_zero :: "jsnum \<Rightarrow> bool" where
  "ge_zero PosInf = True"
| "ge_zero (Num x) = (x \<ge> 0)"
| "ge_zero r = False"


fun le_zero :: "jsnum \<Rightarrow> bool" where
  "le_zero NegInf = True"
| "le_zero (Num x) = (x \<le> 0)"
| "le_zero r = False"

definition is_digit :: "char \<Rightarrow> bool" where
  "is_digit c \<longleftrightarrow> 48 \<le> (of_char c :: nat) \<and> (of_char c :: nat) \<le> 57"

definition digits_val :: "string \<Rightarrow> nat" where
  "digits_val ds = foldl (\<lambda>n c. 10 * n + ((of_char c :: nat) - 48)) 0 ds"

text \<open>
  The exponent part of a decimal literal at the head of \<open>r\<close>: \<open>e\<close> or \<open>E\<close>, an optional
  sign, and at least one digit. Anything else is no exponent.
\<close>

definition parse_exponent :: "string \<Rightarrow> int" where
  "parse_exponent r =
     (case r of
        [] \<Rightarrow> 0
      | e # r1 \<Rightarrow>
          if e = CHR ''e'' \<or> e = CHR ''E'' then
            (let signed = (r1 \<noteq> [] \<and> (hd r1 = CHR ''+'' \<or> hd r1 = CHR ''-''));
                 ds = takeWhile is_digit (if signed then tl r1 else r1)
             in if ds = [] then 0
                else if signed \<and> hd r1 = CHR ''-'' then - int (digits_val ds)
                else int (digits_val ds))
          else 0)"

definition scale10 :: "rat \<Rightarrow> int \<Rightarrow> rat" where
  "scale10 m e = (if e \<ge> 0 then m * 10 ^ nat e else m / 10 ^ nat (- e))"

text \<open>
  The longest prefix of \<open>s\<close> that is an unsigned decimal literal (\<open>Infinity\<close>; digits with
  an optional fraction; a point followed by digits; each with an optional exponent), and
  its value; \<open>NaN\<close> when no prefix is one.
\<close>

definition parse_unsigned :: "string \<Rightarrow> jsnum" where
  "parse_unsigned s =
     (if take 8 s = ''Infinity'' then PosInf
      else
        (let ip = takeWhile is_digit s;
             r1 = dropWhile is_digit s;
             has_dot = (r1 \<noteq> [] \<and> hd r1 = CHR ''.'');
             fp = (if has_dot then takeWhile is_digit (tl r1) else []);
             r2 = (if has_dot then dropWhile is_digit (tl r1) else r1)
         in if ip = [] \<and> fp = [] then NaN
            else Num (scale10
                   (of_nat (digits_val ip) + of_nat (digits_val fp) / 10 ^ length fp)
                   (parse_exponent r2))))"

text \<open>The host's \<open>parseFloat\<close>: leading whitespace is skipped, then an optional sign.\<close>

definition parseFloat :: "string \<Rightarrow> jsnum" where
  "parseFloat s =
     (case dropWhile is_whitespace s of
        [] \<Rightarrow> NaN
      | c # r \<Rightarrow>
          if c = CHR ''+'' then parse_unsigned r
          else if c = CHR ''-'' then jsnum_neg (parse_unsigned r)
          else parse_unsigned (c # r))"

section \<open>CsvUtils.compareValue\<close>

text \<open>
  Modelled from the spec: the host's \<open>localeCompare\<close> with \<open>{numeric: true}\<close> is not
  part of the repository. The spec's natural-order rule is followed: a run of digits in
  both strings at the same place compares by its numeric value, any other character by
  its code; the result is \<open>-1\<close>, \<open>0\<close> or \<open>1\<close>. The host's case and locale rules for
  letters are not modelled.
\<close>

function localeCompare_numeric :: "string \<Rightarrow> string \<Rightarrow> int" where
  "localeCompare_numeric [] [] = 0"
| "localeCompare_numeric [] (b # bs) = - 1"
| "localeCompare_numeric (a # as) [] = 1"
| "localeCompare_numeric (a # as) (b # bs) =
     (if is_digit a \<and> is_digit b then
        (let x = digits_val (takeWhile is_digit (a # as));
             y = digits_val (takeWhile is_digit (b # bs))
         in if x < y then - 1 else if y < x then 1
            else localeCompare_numeric (dropWhile is_digit as) (dropWhile is_digit bs))
      else if (of_char a :: nat) < of_char b then - 1
      else if (of_char b :: nat) < of_char a then 1
      else localeCompare_numeric as bs)"
  by pat_completeness auto
termination
  by (relation "measure (\<lambda>(a, b). length a + length b)")
     (auto simp: less_Suc_eq_le intro: add_le_mono length_dropWhile_le le_SucI)

definition compareValue :: "string \<Rightarrow> string \<Rightarrow> jsnum" where
  "compareValue a b =
     (let numA = parseFloat a; numB = parseFloat b
      in if numA \<noteq> NaN \<and> numB \<noteq> NaN then jsnum_sub numA numB
         else Num (of_int (localeCompare_numeric a b)))"


section \<open>Records and errors\<close>

text \<open>
  A row object maps field names to string values; \<open>None\<close> is \<open>undefined\<close> (and \<open>null\<close>:
  the code treats the two alike wherever it reads a field).
\<close>

type_synonym row = "string \<rightharpoonup> string"

text \<open>
  The errors that the code raises: \<open>FormatError\<close> is \<open>Error("csv must contains header")\<close>,
  \<open>ValidationError\<close> is \<open>Error("Offset cannot be negative")\<close> or
  \<open>Error("Limit cannot be negative")\<close>, \<open>TypeError\<close> is the host's error on reading
  a property of \<open>undefined\<close>; the last two are the blob store's.
\<close>

datatype error = FormatError | ValidationError | TypeError | NotFoundError | ConflictError

text \<open>\<open>values[index] || ''\<close>.\<close>

definition value_at :: "string list \<Rightarrow> nat \<Rightarrow> string" where
  "value_at values index = (if index < length values then values ! index else [])"

text \<open>
  \<open>headers.forEach((header, index) => { row[header] = values[index] || ''; })\<close>,
  from the index \<open>index\<close> on.
\<close>

fun assign_fields :: "string list \<Rightarrow> nat \<Rightarrow> string list \<Rightarrow> row \<Rightarrow> row" where
  "assign_fields [] index values row = row"
| "assign_fields (header # headers) index values row =
     assign_fields headers (Suc index) values (row(header \<mapsto> value_at values index))"

definition make_row :: "string list \<Rightarrow> string list \<Rightarrow> row" where
  "make_row headers values = assign_fields headers 0 values Map.empty"

section \<open>csvDataFilter: the predicate builder\<close>

text \<open>
  Each constructor pushes a closure over the row; the closure is the function of the row
  that remains once the constructor's arguments are given. A comparison argument is
  given after its coercion: \<open>None\<close> for \<open>null\<close> or \<open>undefined\<close>, \<open>Some s\<close> for a value
  whose \<open>String(value)\<close> is \<open>s\<close>.
\<close>

definition test :: "(row \<Rightarrow> bool) list \<Rightarrow> row \<Rightarrow> bool" where
  "test filters row = list_all (\<lambda>f. f row) filters"











definition cmpHelper :: "string \<Rightarrow> string option \<Rightarrow> (jsnum \<Rightarrow> bool) \<Rightarrow> row \<Rightarrow> bool" where
  "cmpHelper fieldName strValue tester row =
     (case row fieldName of
        None \<Rightarrow> False
      | Some v \<Rightarrow>
          (case strValue of
             None \<Rightarrow> False
           | Some s \<Rightarrow> (let cmpResult = compareValue v s in tester cmpResult)))"


definition ge :: "string \<Rightarrow> string option \<Rightarrow> row \<Rightarrow> bool" where
  "ge fieldName strValue = cmpHelper fieldName strValue ge_zero"


definition le :: "string \<Rightarrow> string option \<Rightarrow> row \<Rightarrow> bool" where
  "le fieldName strValue = cmpHelper fieldName strValue le_zero"


section \<open>csvDataFetcher: the query executor\<close>

record fetch_handler =
  shouldHandleData :: "row \<Rightarrow> bool"
  lineOffset :: int
  lineLimit :: int
  orderField :: "string option"
  orderDesc :: bool
  selectField :: "string list option"

text \<open>\<open>Number.MAX_VALUE\<close>, the default \<open>lineLimit\<close>; it is an integer.\<close>

definition Number_MAX_VALUE :: int where
  "Number_MAX_VALUE = 2 ^ 1024 - 2 ^ 971"

text \<open>
  \<open>Array.prototype.slice(start, end)\<close> on integer arguments: a negative argument counts
  from the end, and both are clamped to the array. Offsets and limits are integers here,
  and the sum \<open>start + lineLimit\<close> is exact; the host rounds it when the limit is
  \<open>Number.MAX_VALUE\<close>, to a value that is beyond the length of any array all the same.
\<close>

definition slice :: "int \<Rightarrow> int \<Rightarrow> 'a list \<Rightarrow> 'a list" where
  "slice start endIndex xs =
     (let len = int (length xs);
          k = (if start < 0 then max (len + start) 0 else min start len);
          final = (if endIndex < 0 then max (len + endIndex) 0 else min endIndex len)
      in take (nat (final - k)) (drop (nat k) xs))"

text \<open>
  The comparator given to \<open>records.sort\<close>. Reading \<open>localeCompare\<close> off an undefined
  first value raises; an undefined second value is coerced to the string \<open>undefined\<close>.
\<close>

definition order_cmp :: "string \<Rightarrow> bool \<Rightarrow> row \<Rightarrow> row \<Rightarrow> error + jsnum" where
  "order_cmp valueOrderFiled valueOrderDesc a b =
     (case a valueOrderFiled of
        None \<Rightarrow> Inl TypeError
      | Some v1 \<Rightarrow>
          (let v2 = (case b valueOrderFiled of None \<Rightarrow> ''undefined'' | Some s \<Rightarrow> s);
               cmpResult = compareValue v1 v2
           in Inr (if valueOrderDesc then jsnum_neg cmpResult else cmpResult)))"

text \<open>
  \<open>Array.prototype.sort\<close> is stable, and an array of fewer than two elements is
  returned without a call of the comparator. It is modelled as the stable insertion sort:
  an element goes behind the elements that the comparator puts before it (a result that
  is positive), and a result that is \<open>NaN\<close> counts as zero. An error of the comparator
  ends the sort.
\<close>

fun insert_record :: "(row \<Rightarrow> row \<Rightarrow> error + jsnum) \<Rightarrow> row \<Rightarrow> row list \<Rightarrow> error + row list" where
  "insert_record cmp x [] = Inr [x]"
| "insert_record cmp x (y # ys) =
     (case cmp x y of
        Inl e \<Rightarrow> Inl e
      | Inr c \<Rightarrow>
          if gt_zero c then
            (case insert_record cmp x ys of Inl e \<Rightarrow> Inl e | Inr r \<Rightarrow> Inr (y # r))
          else Inr (x # y # ys))"

fun sort_records :: "(row \<Rightarrow> row \<Rightarrow> error + jsnum) \<Rightarrow> row list \<Rightarrow> error + row list" where
  "sort_records cmp [] = Inr []"
| "sort_records cmp (x # xs) =
     (case sort_records cmp xs of Inl e \<Rightarrow> Inl e | Inr rest \<Rightarrow> insert_record cmp x rest)"

text \<open>The projection: \<open>newRow[field] = row[field]\<close> for each selected field.\<close>

definition project :: "string list \<Rightarrow> row \<Rightarrow> row" where
  "project selectFields row = (\<lambda>field. if field \<in> set selectFields then row field else None)"

text \<open>The loop of \<open>fetch\<close> over the lines after the header.\<close>

fun fetch_loop :: "fetch_handler \<Rightarrow> string list \<Rightarrow> string list \<Rightarrow> row list \<Rightarrow> row list" where
  "fetch_loop handler headers [] records = records"
| "fetch_loop handler headers (line # lines) records =
     (if is_blank line then fetch_loop handler headers lines records
      else
        (let values = parseCsvLine line;
             row = make_row headers values
         in if \<not> shouldHandleData handler row then fetch_loop handler headers lines records
            else fetch_loop handler headers lines (records @ [row])))"

definition fetch :: "fetch_handler \<Rightarrow> string \<Rightarrow> error + row list" where
  "fetch handler csvContent =
     (case split_on newline csvContent of
        [] \<Rightarrow> Inl FormatError
      | header_line # lines \<Rightarrow>
          (let headers = parseCsvLine header_line;
               records = fetch_loop handler headers lines [];
               ordered = (case orderField handler of
                           None \<Rightarrow> Inr records
                         | Some valueOrderFiled \<Rightarrow>
                             sort_records (order_cmp valueOrderFiled (orderDesc handler)) records)
           in case ordered of
                Inl e \<Rightarrow> Inl e
              | Inr records \<Rightarrow>
                  (let start = lineOffset handler;
                       endIndex = start + lineLimit handler
                   in case selectField handler of
                        None \<Rightarrow> Inr (slice start endIndex records)
                      | Some selectFields \<Rightarrow>
                          Inr (map (project selectFields) (slice start endIndex records)))))"

section \<open>csvModifyHandler: the mutation executor\<close>

text \<open>
  What \<open>handleData\<close> returns: \<open>null\<close> (the row is dropped), an object (the new row), or
  \<open>undefined\<close>, which \<open>prepareRecord\<close> cannot read. The field \<open>shouldHandleData\<close> of this
  handler carries the suffix \<open>M\<close>: the name is taken by the fetch handler's.
\<close>

datatype handled = Null | Undefined | Object row

record modify_handler =
  appendRows :: "row list"
  shouldHandleDataM :: "row \<Rightarrow> bool"
  handleData :: "row \<Rightarrow> handled"

definition prepareRecord :: "string list \<Rightarrow> row \<Rightarrow> string list" where
  "prepareRecord headers row =
     map (\<lambda>header. case row header of None \<Rightarrow> [] | Some v \<Rightarrow> v) headers"

text \<open>The loop of \<open>execute\<close> over the lines after the header.\<close>

fun modify_loop ::
  "modify_handler \<Rightarrow> string list \<Rightarrow> string list \<Rightarrow> string list list \<Rightarrow> nat
     \<Rightarrow> error + (string list list \<times> nat)" where
  "modify_loop handler headers [] records affectedCount = Inr (records, affectedCount)"
| "modify_loop handler headers (line # lines) records affectedCount =
     (if is_blank line then modify_loop handler headers lines records affectedCount
      else
        (let values = parseCsvLine line;
             row = make_row headers values
         in if shouldHandleDataM handler row then
              (case handleData handler row of
                 Null \<Rightarrow> modify_loop handler headers lines records (affectedCount + 1)
               | Undefined \<Rightarrow> Inl TypeError
               | Object newRow \<Rightarrow>
                   modify_loop handler headers lines
                     (records @ [prepareRecord headers newRow]) (affectedCount + 1))
            else modify_loop handler headers lines (records @ [values]) affectedCount))"

text \<open>The loop over \<open>handler.appendRows()\<close>.\<close>

fun append_loop ::
  "string list \<Rightarrow> row list \<Rightarrow> string list list \<Rightarrow> nat \<Rightarrow> string list list \<times> nat" where
  "append_loop headers [] records affectedCount = (records, affectedCount)"
| "append_loop headers (row # rows) records affectedCount =
     append_loop headers rows (records @ [prepareRecord headers row]) (affectedCount + 1)"

text \<open>The body that \<open>execute\<close> writes: the header line, then one line for each record.\<close>

definition serialize :: "string list \<Rightarrow> string list list \<Rightarrow> string" where
  "serialize headers records =
     join newline
       (join comma headers # map (\<lambda>values. join comma (map escapeCsvField values)) records)"

text \<open>\<open>execute\<close> returns \<open>affectedCount\<close> and \<open>csvContent\<close>, here as a pair.\<close>

definition execute :: "modify_handler \<Rightarrow> string \<Rightarrow> error + (nat \<times> string)" where
  "execute handler csvContent =
     (case split_on newline csvContent of
        [] \<Rightarrow> Inl FormatError
      | header_line # lines \<Rightarrow>
          (let headers = parseCsvLine header_line
           in case modify_loop handler headers lines [] 0 of
                Inl e \<Rightarrow> Inl e
              | Inr (records, affectedCount) \<Rightarrow>
                  (case append_loop headers (appendRows handler) records affectedCount of
                     (records, affectedCount) \<Rightarrow>
                       Inr (affectedCount, serialize headers records))))"


section \<open>csvDb: the record store facade\<close>

subsection \<open>The mutation plans\<close>

text \<open>
  \<open>updateFields\<close> is an object filled by \<open>set\<close>, read by \<open>Object.entries\<close>: an association
  list in which a key that is set again keeps its place.
\<close>

fun assoc_put :: "string \<Rightarrow> string \<Rightarrow> (string \<times> string) list \<Rightarrow> (string \<times> string) list" where
  "assoc_put k v [] = [(k, v)]"
| "assoc_put k v (p # ps) = (if fst p = k then (k, v) # ps else p # assoc_put k v ps)"

definition set_field :: "string \<Rightarrow> string option \<Rightarrow> (string \<times> string) list \<Rightarrow> (string \<times> string) list" where
  "set_field field val updateFields =
     assoc_put field (case val of None \<Rightarrow> [] | Some s \<Rightarrow> s) updateFields"


text \<open>
  \<open>updateDatas\<close> is an object used as a dictionary from key values to replacement rows. A
  key that is not a string is coerced: an undefined one to \<open>undefined\<close>. (The keys that an
  object treats specially, such as \<open>__proto__\<close>, are outside this model.)
\<close>

definition key_of :: "string option \<Rightarrow> string" where
  "key_of v = (case v of None \<Rightarrow> ''undefined'' | Some k \<Rightarrow> k)"

definition updateBy_value :: "string \<Rightarrow> row \<Rightarrow> (string \<rightharpoonup> row) \<Rightarrow> (string \<rightharpoonup> row)" where
  "updateBy_value fieldName data updateDatas = updateDatas(key_of (data fieldName) \<mapsto> data)"



definition insert_handler :: "row list \<Rightarrow> modify_handler" where
  "insert_handler rows =
     \<lparr> appendRows = rows,
       shouldHandleDataM = (\<lambda>row. False),
       handleData = (\<lambda>row. Object row) \<rparr>"



subsection \<open>The select builder\<close>

record select_builder =
  csvFilter :: "(row \<Rightarrow> bool) list"
  fetcher :: fetch_handler

definition selectFrom :: "string list \<Rightarrow> select_builder" where
  "selectFrom fieldNames =
     \<lparr> csvFilter = [],
       fetcher =
         \<lparr> shouldHandleData = (\<lambda>row. True),
           lineOffset = 0,
           lineLimit = Number_MAX_VALUE,
           orderField = None,
           orderDesc = False,
           selectField = (if length fieldNames = 0 then None else Some fieldNames) \<rparr> \<rparr>"

definition add_filter :: "(row \<Rightarrow> bool) \<Rightarrow> select_builder \<Rightarrow> select_builder" where
  "add_filter f b = b\<lparr>csvFilter := csvFilter b @ [f]\<rparr>"




text \<open>
  The handler's \<open>shouldHandleData\<close> is the closure \<open>row => csvFilter.test(row)\<close>: it sees
  the filters that the builder holds when the fetch runs.
\<close>

definition select_fetch :: "select_builder \<Rightarrow> string \<Rightarrow> error + row list" where
  "select_fetch b csvContent =
     fetch ((fetcher b)\<lparr>shouldHandleData := (\<lambda>row. test (csvFilter b) row)\<rparr>) csvContent"

subsection \<open>The blob store and the mutating operations\<close>

text \<open>
  Modelled from the spec: the remote versioned blob store is an external service, and
  the repository holds only the requests made to it. An object has a content, and its
  version token is a function \<open>sha_of\<close> of that content; a conditional write of a path
  fails with a conflict unless the token it is given is the token of the present content.
\<close>

type_synonym store = "string \<rightharpoonup> string"

definition getFileInfo :: "(string \<Rightarrow> 'v) \<Rightarrow> string \<Rightarrow> store \<Rightarrow> error + (string \<times> 'v)" where
  "getFileInfo sha_of path st =
     (case st path of None \<Rightarrow> Inl NotFoundError | Some c \<Rightarrow> Inr (c, sha_of c))"

definition getFileContent :: "(string \<Rightarrow> 'v) \<Rightarrow> string \<Rightarrow> store \<Rightarrow> error + string" where
  "getFileContent sha_of path st =
     (case getFileInfo sha_of path st of Inl e \<Rightarrow> Inl e | Inr fileInfo \<Rightarrow> Inr (fst fileInfo))"

definition put_with_sha :: "(string \<Rightarrow> 'v) \<Rightarrow> string \<Rightarrow> string \<Rightarrow> 'v \<Rightarrow> store \<Rightarrow> error + store" where
  "put_with_sha sha_of path content sha st =
     (case st path of
        None \<Rightarrow> Inl NotFoundError
      | Some c \<Rightarrow> if sha_of c = sha then Inr (st(path \<mapsto> content)) else Inl ConflictError)"

text \<open>
  A mutating operation (\<open>execute\<close> of \<open>update\<close>, \<open>updateBy\<close>, \<open>deleteFrom\<close>, \<open>insertInto\<close>)
  awaits the store three times: \<open>getFileContent\<close>, then inside \<open>updateFile\<close> the probe
  \<open>getFileInfo\<close> and the write. Between two awaits another operation can run, so an
  operation is a task that takes one step for each request.
\<close>

datatype 'v task =
    Start modify_handler
  | Computed nat string
  | Probed nat string 'v
  | Finished "error + nat"

fun step :: "(string \<Rightarrow> 'v) \<Rightarrow> string \<Rightarrow> 'v task \<Rightarrow> store \<Rightarrow> 'v task \<times> store" where
  "step sha_of path (Start csvHandler) st =
     (case getFileContent sha_of path st of
        Inl e \<Rightarrow> (Finished (Inl e), st)
      | Inr csvContent \<Rightarrow>
          (case execute csvHandler csvContent of
             Inl e \<Rightarrow> (Finished (Inl e), st)
           | Inr (affectedCount, newCsvContent) \<Rightarrow> (Computed affectedCount newCsvContent, st)))"
| "step sha_of path (Computed affectedCount newCsvContent) st =
     (case getFileInfo sha_of path st of
        Inl e \<Rightarrow> (Finished (Inl e), st)
      | Inr fileInfo \<Rightarrow> (Probed affectedCount newCsvContent (snd fileInfo), st))"
| "step sha_of path (Probed affectedCount newCsvContent sha) st =
     (case put_with_sha sha_of path newCsvContent sha st of
        Inl e \<Rightarrow> (Finished (Inl e), st)
      | Inr st' \<Rightarrow> (Finished (Inr affectedCount), st'))"
| "step sha_of path (Finished r) st = (Finished r, st)"

text \<open>
  Two operations on one table, and a schedule that says which of them takes the next
  step (\<open>False\<close> the first, \<open>True\<close> the second).
\<close>

fun run_schedule ::
  "(string \<Rightarrow> 'v) \<Rightarrow> string \<Rightarrow> bool list \<Rightarrow> 'v task \<times> 'v task \<times> store \<Rightarrow> 'v task \<times> 'v task \<times> store" where
  "run_schedule sha_of path [] state = state"
| "run_schedule sha_of path (second # schedule) (t1, t2, st) =
     (if second then
        (case step sha_of path t2 st of (t2', st') \<Rightarrow> run_schedule sha_of path schedule (t1, t2', st'))
      else
        (case step sha_of path t1 st of (t1', st') \<Rightarrow> run_schedule sha_of path schedule (t1', t2, st')))"


section \<open>Notions used in the statements\<close>

text \<open>
  What the two executors read off a table body: the header fields, the lines after the
  header that are not blank, and the row object built from each of them.
\<close>

definition header_of :: "string \<Rightarrow> string list" where
  "header_of csvContent = parseCsvLine (hd (split_on newline csvContent))"

definition data_lines :: "string \<Rightarrow> string list" where
  "data_lines csvContent = filter (\<lambda>line. \<not> is_blank line) (tl (split_on newline csvContent))"

definition data_rows :: "string \<Rightarrow> row list" where
  "data_rows csvContent =
     map (\<lambda>line. make_row (header_of csvContent) (parseCsvLine line)) (data_lines csvContent)"

text \<open>A backslash immediately followed by a quote or a comma: what \<open>unescapeField\<close> rewrites.\<close>

fun has_escape :: "string \<Rightarrow> bool" where
  "has_escape (a # b # cs) =
     ((a = backslash \<and> (b = dquote \<or> b = comma)) \<or> has_escape (b # cs))"
| "has_escape cs = False"

text \<open>A header name that the header line holds as it is: no comma, quote or newline.\<close>

definition plain_name :: "string \<Rightarrow> bool" where
  "plain_name name \<longleftrightarrow> comma \<notin> set name \<and> dquote \<notin> set name \<and> newline \<notin> set name"

text \<open>
  The canonical encoding of a table: the body that \<open>execute\<close> writes for the records,
  each prepared against the header.
\<close>

definition encode :: "string list \<Rightarrow> row list \<Rightarrow> string" where
  "encode headers rows = serialize headers (map (prepareRecord headers) rows)"

text \<open>The decoding of a whole table: a select with no filter, order, page or projection.\<close>

definition decode :: "string \<Rightarrow> error + row list" where
  "decode csvContent = select_fetch (selectFrom []) csvContent"




text \<open>The projection that a handler asks for, the identity when it asks for none.\<close>

definition projection :: "fetch_handler \<Rightarrow> row \<Rightarrow> row" where
  "projection handler = (case selectField handler of None \<Rightarrow> id | Some selectFields \<Rightarrow> project selectFields)"

text \<open>
  What the loop of \<open>execute\<close> puts out for one line that is not blank: nothing for a
  dropped row, the prepared new row for a transformed one, the parsed values otherwise.
\<close>

definition line_output :: "modify_handler \<Rightarrow> string list \<Rightarrow> string \<Rightarrow> string list list" where
  "line_output handler headers line =
     (let values = parseCsvLine line; row = make_row headers values
      in if shouldHandleDataM handler row then
           (case handleData handler row of
              Null \<Rightarrow> []
            | Undefined \<Rightarrow> []
            | Object newRow \<Rightarrow> [prepareRecord headers newRow])
         else [values])"





section \<open>The predicates on an absent field\<close>







section \<open>The loops in closed form\<close>

lemma split_on_nonempty: "split_on sep cs \<noteq> []"
  by (induction cs) (auto split: list.splits)

lemma modify_loop_error: "modify_loop h hs lines recs n = Inl e \<Longrightarrow> e = TypeError"
  by (induction lines arbitrary: recs n) (auto simp: Let_def split: if_splits handled.splits)

lemma modify_loop_closed:
  assumes "\<And>row. shouldHandleDataM h row \<Longrightarrow> handleData h row \<noteq> Undefined"
  shows "modify_loop h hs lines recs n =
     Inr (recs @ concat (map (line_output h hs) (filter (\<lambda>line. \<not> is_blank line) lines)),
          n + length (filter (shouldHandleDataM h)
                 (map (\<lambda>line. make_row hs (parseCsvLine line)) (filter (\<lambda>line. \<not> is_blank line) lines))))"
proof (induction lines arbitrary: recs n)
  case Nil
  show ?case by simp
next
  case (Cons line lines)
  show ?case
  proof (cases "is_blank line")
    case True
    then show ?thesis using Cons.IH by simp
  next
    case False
    let ?row = "make_row hs (parseCsvLine line)"
    show ?thesis
    proof (cases "shouldHandleDataM h ?row")
      case True
      with assms have "handleData h ?row \<noteq> Undefined" by blast
      with True False show ?thesis
        using Cons.IH by (cases "handleData h ?row") (simp_all add: line_output_def Let_def)
    next
      case no: False
      with False show ?thesis using Cons.IH by (simp add: line_output_def Let_def)
    qed
  qed
qed

lemma append_loop_closed:
  "append_loop hs rows recs n = (recs @ map (prepareRecord hs) rows, n + length rows)"
  by (induction rows arbitrary: recs n) auto

lemma execute_closed:
  assumes "\<And>row. shouldHandleDataM h row \<Longrightarrow> handleData h row \<noteq> Undefined"
  shows "execute h c =
     Inr (length (filter (shouldHandleDataM h) (data_rows c)) + length (appendRows h),
          serialize (header_of c)
            (concat (map (line_output h (header_of c)) (data_lines c))
             @ map (prepareRecord (header_of c)) (appendRows h)))"
proof -
  obtain l0 rest where sp: "split_on newline c = l0 # rest"
    using split_on_nonempty[of newline c] by (cases "split_on newline c") auto
  show ?thesis
    unfolding execute_def sp
    by (simp add: modify_loop_closed[OF assms] append_loop_closed header_of_def data_lines_def Let_def
        data_rows_def sp)
qed


lemma execute_error: "execute h c = Inl e \<Longrightarrow> e = TypeError"
  using split_on_nonempty[of newline c]
  by (auto simp: execute_def Let_def split: list.splits sum.splits prod.splits dest: modify_loop_error)


lemma fetch_loop_closed:
  "fetch_loop h hs lines recs =
     recs @ filter (shouldHandleData h)
              (map (\<lambda>line. make_row hs (parseCsvLine line)) (filter (\<lambda>line. \<not> is_blank line) lines))"
  by (induction lines arbitrary: recs) (auto simp: Let_def)

lemma insert_record_error: "insert_record (order_cmp F d) x ys = Inl e \<Longrightarrow> e = TypeError"
  by (induction ys) (auto simp: order_cmp_def Let_def split: sum.splits option.splits if_splits)

lemma sort_records_error: "sort_records (order_cmp F d) rs = Inl e \<Longrightarrow> e = TypeError"
  by (induction rs arbitrary: e) (auto split: sum.splits dest: insert_record_error)








lemma fetch_rows:
  "fetch_loop h (header_of c) (tl (split_on newline c)) [] = filter (shouldHandleData h) (data_rows c)"
  by (simp add: fetch_loop_closed data_rows_def data_lines_def)

lemma fetch_unfold:
  "fetch h c =
     (case (case orderField h of
              None \<Rightarrow> Inr (filter (shouldHandleData h) (data_rows c))
            | Some F \<Rightarrow> sort_records (order_cmp F (orderDesc h)) (filter (shouldHandleData h) (data_rows c))) of
        Inl e \<Rightarrow> Inl e
      | Inr records \<Rightarrow>
          Inr (map (projection h) (slice (lineOffset h) (lineOffset h + lineLimit h) records)))"
proof -
  obtain l0 rest where sp: "split_on newline c = l0 # rest"
    using split_on_nonempty[of newline c] by (cases "split_on newline c") auto
  have "fetch_loop h (parseCsvLine l0) rest [] = filter (shouldHandleData h) (data_rows c)"
    using fetch_rows[of h c] by (simp add: sp header_of_def)
  then show ?thesis
    by (simp add: fetch_def sp Let_def projection_def split: option.splits sum.splits)
qed

lemma fetch_error: "fetch h c = Inl e \<Longrightarrow> e = TypeError"
  by (auto simp: fetch_unfold split: option.splits sum.splits dest: sort_records_error)





section \<open>The decoders and the missing header\<close>

text \<open>
  Claim C4 says that either decoder (\<open>fetch\<close> on the query path, \<open>execute\<close> on the
  mutation path) fails with the format error exactly on an input with no header line.
  The code tests \<open>lines.length === 0\<close> for that, but \<open>split\<close> returns at least one line
  for every input, the empty one too. So the test never holds and neither decoder ever
  fails with the format error: the empty input is read as a table whose header is one
  field with the empty name, a select on it returns no rows, and an insert into it
  reports one affected row and writes a body without the row's values.
\<close>

theorem header_guard_never_fires:
  "split_on newline csvContent \<noteq> []
   \<and> fetch handler csvContent \<noteq> Inl FormatError
   \<and> execute mhandler csvContent \<noteq> Inl FormatError
   \<and> split_on newline [] = [[]]
   \<and> fetch (fetcher (selectFrom [])) [] = Inr []
   \<and> execute (insert_handler [[''domain'' \<mapsto> ''a.com'']]) [] = Inr (1, [newline])"
proof -
  have "data_rows [] = []" by (simp add: data_rows_def data_lines_def)
  then have "fetch (fetcher (selectFrom [])) [] = Inr []"
    by (simp add: fetch_unfold selectFrom_def slice_def)
  moreover have "execute (insert_handler [[''domain'' \<mapsto> ''a.com'']]) [] = Inr (1, [newline])"
    by code_simp
  ultimately show ?thesis
    using fetch_error[of handler csvContent FormatError]
      execute_error[of mhandler csvContent FormatError] split_on_nonempty[of newline csvContent]
    by auto
qed

section \<open>The mutation executor\<close>








section \<open>The query executor\<close>




section \<open>The codec, there and back\<close>

lemma parse_plain:
  "comma \<notin> set v \<Longrightarrow> dquote \<notin> set v \<Longrightarrow>
   parse_loop (v @ rest) False cur res = parse_loop rest False (cur @ v) res"
  by (induction v arbitrary: cur) auto

lemma parse_quoted:
  "rest = [] \<or> hd rest \<noteq> dquote \<Longrightarrow>
   parse_loop (double_quotes v @ dquote # rest) True cur res = parse_loop rest False (cur @ v) res"
  by (induction v arbitrary: cur) auto

lemma parse_escaped:
  "rest = [] \<or> hd rest = comma \<Longrightarrow>
   parse_loop (escapeCsvField v @ rest) False cur res = parse_loop rest False (cur @ v) res"
  using parse_plain[of v rest cur res] parse_quoted[of rest v cur res]
  by (auto simp: escapeCsvField_def)

lemma parse_join_escaped:
  "parse_loop (join comma (map escapeCsvField (v # vs))) False [] res = res @ map unescapeField (v # vs)"
proof (induction vs arbitrary: v res)
  case Nil
  show ?case using parse_escaped[of "[]" v "[]" res] by simp
next
  case (Cons w ws)
  have "parse_loop (escapeCsvField v @ comma # join comma (map escapeCsvField (w # ws))) False [] res
        = parse_loop (comma # join comma (map escapeCsvField (w # ws))) False ([] @ v) res"
    by (rule parse_escaped) simp
  then show ?case using Cons.IH[of w "res @ [unescapeField v]"] by simp
qed

lemma parseCsvLine_encoded:
  "vs \<noteq> [] \<Longrightarrow> parseCsvLine (join comma (map escapeCsvField vs)) = map unescapeField vs"
  using parse_join_escaped[of "hd vs" "tl vs" "[]"] by (simp add: parseCsvLine_def)

lemma replace_escaped_id:
  "\<not> has_escape v \<Longrightarrow> t = dquote \<or> t = comma \<Longrightarrow> replace_escaped t v = v"
  by (induction t v rule: replace_escaped.induct) auto

lemma unescapeField_id: "\<not> has_escape v \<Longrightarrow> unescapeField v = v"
  by (simp add: unescapeField_def replace_escaped_id)

lemma has_escape_chars: "has_escape v \<Longrightarrow> dquote \<in> set v \<or> comma \<in> set v"
  by (induction v rule: has_escape.induct) auto

lemma plain_name_escape: "plain_name h \<Longrightarrow> escapeCsvField h = h"
  by (simp add: plain_name_def escapeCsvField_def)

lemma plain_name_unescape: "plain_name h \<Longrightarrow> unescapeField h = h"
  using has_escape_chars[of h] by (auto simp: plain_name_def intro: unescapeField_id)

lemma parse_header_line:
  assumes "hs \<noteq> []" and "\<forall>h \<in> set hs. plain_name h"
  shows "parseCsvLine (join comma hs) = hs"
proof -
  have "map escapeCsvField hs = hs" "map unescapeField hs = hs"
    using assms(2) by (simp_all add: map_idI plain_name_escape plain_name_unescape)
  with parseCsvLine_encoded[OF assms(1)] show ?thesis by simp
qed


lemma split_on_single: "sep \<notin> set l \<Longrightarrow> split_on sep l = [l]"
  by (induction l) auto




lemma set_join: "set (join sep xs) \<subseteq> insert sep (\<Union>x \<in> set xs. set x)"
  by (induction sep xs rule: join.induct) auto















lemma newline_free_header:
  assumes "\<forall>h \<in> set hs. plain_name h"
  shows "newline \<notin> set (join comma hs)"
proof
  assume "newline \<in> set (join comma hs)"
  with set_join[of comma hs] obtain h where "h \<in> set hs" "newline \<in> set h" by auto
  with assms show False by (auto simp: plain_name_def)
qed

lemma insert_writes_encoding:
  assumes "hs \<noteq> []" and "\<forall>h \<in> set hs. plain_name h"
  shows "execute (insert_handler rs) (join comma hs) = Inr (length rs, encode hs rs)"
proof -
  have sp: "split_on newline (join comma hs) = [join comma hs]"
    using newline_free_header[OF assms(2)] by (rule split_on_single)
  have "header_of (join comma hs) = hs" "data_lines (join comma hs) = []"
    "data_rows (join comma hs) = []"
    by (simp_all add: header_of_def data_lines_def data_rows_def sp parse_header_line[OF assms])
  then show ?thesis
    using execute_closed[of "insert_handler rs" "join comma hs"]
    by (simp add: insert_handler_def encode_def)
qed




text \<open>
  Two more records that do not come back: a value with a newline is encoded between
  quotes, but the decoder splits the body into lines before it looks at any quote, and a
  record whose line is blank is skipped.
\<close>

lemma newline_value_splits_the_row:
  "encode [''a''] [[''a'' \<mapsto> ''x'' @ [newline] @ ''y'']]
     = ''a'' @ [newline, dquote] @ ''x'' @ [newline] @ ''y'' @ [dquote]
   \<and> map_sum id (map (\<lambda>row. row ''a''))
        (decode (encode [''a''] [[''a'' \<mapsto> ''x'' @ [newline] @ ''y'']]))
     = Inr [Some ''x'', Some ''y'']"
  by code_simp

lemma blank_row_is_skipped:
  "encode [''a''] [[''a'' \<mapsto> '' '']] = ''a'' @ [newline] @ '' ''
   \<and> map_sum id (map (\<lambda>row. row ''a'')) (decode (encode [''a''] [[''a'' \<mapsto> '' '']])) = Inr []"
  by code_simp

section \<open>The value comparator\<close>









section \<open>Two operations on one table\<close>

text \<open>
  Claim C9. In a mutating operation the token given to the conditional write is the one
  that the probe inside \<open>updateFile\<close> reads, the token of whatever content the store
  holds then, and not the token of the content that the operation read at its start. So
  when two operations on one table both read the content \<open>c0\<close> before either writes,
  and each probes just before its write, both writes pass the guard and both operations
  return their counts; the table is left with what the second computed from \<open>c0\<close>, as
  if the first had never run. (Given the token of \<open>c0\<close> instead, the second write would
  meet the conflict whenever the first write changed the token.)
\<close>

theorem lost_update:
  assumes "st path = Some c0"
    and "execute h1 c0 = Inr (n1, c1)"
    and "execute h2 c0 = Inr (n2, c2)"
  shows "step sha_of path (Computed n1 c1) (st(path \<mapsto> c')) = (Probed n1 c1 (sha_of c'), st(path \<mapsto> c'))
       \<and> step sha_of path (Probed n1 c1 (sha_of c')) (st(path \<mapsto> c')) = (Finished (Inr n1), st(path \<mapsto> c1))
       \<and> run_schedule sha_of path [False, True, False, False, True, True] (Start h1, Start h2, st)
           = (Finished (Inr n1), Finished (Inr n2), st(path \<mapsto> c2))
       \<and> snd (snd (run_schedule sha_of path [True, True, True] (Start h1, Start h2, st))) = st(path \<mapsto> c2)
       \<and> (sha_of c1 \<noteq> sha_of c0 \<longrightarrow>
            put_with_sha sha_of path c2 (sha_of c0) (st(path \<mapsto> c1)) = Inl ConflictError)"
  using assms
  by (simp add: getFileContent_def getFileInfo_def put_with_sha_def)

theorem lost_update_witness:
  "run_schedule id ''db/cookie.csv'' [False, True, False, False, True, True]
     (Start (insert_handler [[''a'' \<mapsto> ''x'']]), Start (insert_handler [[''a'' \<mapsto> ''y'']]),
      [''db/cookie.csv'' \<mapsto> ''a''])
   = (Finished (Inr 1), Finished (Inr 1), [''db/cookie.csv'' \<mapsto> ''a'' @ [newline] @ ''y''])
   \<and> put_with_sha id ''db/cookie.csv'' (''a'' @ [newline] @ ''y'') ''a''
         [''db/cookie.csv'' \<mapsto> ''a'' @ [newline] @ ''x''] = Inl ConflictError"
proof -
  have e1: "execute (insert_handler [[''a'' \<mapsto> ''x'']]) ''a'' = Inr (1, ''a'' @ [newline] @ ''x'')"
    by code_simp
  have e2: "execute (insert_handler [[''a'' \<mapsto> ''y'']]) ''a'' = Inr (1, ''a'' @ [newline] @ ''y'')"
    by code_simp
  have s: "[''db/cookie.csv'' \<mapsto> ''a''] ''db/cookie.csv'' = Some ''a''" by simp
  show ?thesis
    using lost_update[where st = "[''db/cookie.csv'' \<mapsto> ''a'']" and path = "''db/cookie.csv''"
        and sha_of = id and c' = "[]", OF s e1 e2]
    by simp
qed

end
